theory Spec2Isabelle
  imports Main "HOL-Library.Word"
begin

section \<open>Dust injector control: servo gate and vibration motor\<close>

text \<open>
  A shallow embedding of \<^verbatim>\<open>particle_injector_controller.ino\<close>. The sketch drives two
  actuators (a servo gate and a PWM vibration motor) and the serial console. Every call
  into the Arduino core or the Servo library is recorded as one event, in program order,
  so a run of the sketch is the list of events it has issued.

  Integer types are those of the AVR toolchain the sketch is written for (it names the
  Uno): \<^verbatim>\<open>int\<close> is a signed 16-bit word, \<^verbatim>\<open>unsigned long\<close> an unsigned 32-bit word,
  \<^verbatim>\<open>uint8_t\<close> an unsigned 8-bit word.
\<close>

subsection \<open>Constants of the sketch\<close>

text \<open>
  The tunable constants of the sketch, gathered in one record so that the code can be
  studied at every parameterisation. The field names are the constants' names.
\<close>

record CycleConfig =
  SERVO_OPEN_DEG :: "16 word"
  SERVO_CLOSE_DEG :: "16 word"
  VIBE_PWM :: "8 word"
  VIBE_ON_MS :: "32 word"
  VIBE_OFF_MS :: "32 word"
  PULSE_CYCLES :: "16 word"
  REOPEN_LEAD_MS :: "32 word"

text \<open>The pin assignments.\<close>

definition SERVO_PIN :: int where
  "SERVO_PIN = 6"

definition BUZZER_PIN :: int where
  "BUZZER_PIN = 11"

text \<open>The values the sketch is shipped with.\<close>

definition sketch_config :: CycleConfig where
  "sketch_config =
     \<lparr> SERVO_OPEN_DEG = 123, SERVO_CLOSE_DEG = 130, VIBE_PWM = 255,
       VIBE_ON_MS = 500, VIBE_OFF_MS = 1500, PULSE_CYCLES = 1100,
       REOPEN_LEAD_MS = 250 \<rparr>"

text \<open>
  The declarations of the constants, with their initialisers as parameters. Each
  constant is declared with an integer literal, which the compiler converts to the
  constant's type: to an unsigned type modulo \<open>2 ^ w\<close>, to the 16-bit \<^verbatim>\<open>int\<close> by
  keeping the low 16 bits, as avr-gcc does. The shipped sketch is
  \<open>initialise 123 130 255 500 1500 1100 250\<close>.
\<close>

definition initialise :: "int \<Rightarrow> int \<Rightarrow> int \<Rightarrow> int \<Rightarrow> int \<Rightarrow> int \<Rightarrow> int \<Rightarrow> CycleConfig" where
  "initialise open_deg close_deg pwm on_ms off_ms cycles lead_ms =
     \<lparr> SERVO_OPEN_DEG = word_of_int open_deg, SERVO_CLOSE_DEG = word_of_int close_deg,
       VIBE_PWM = word_of_int pwm,
       VIBE_ON_MS = word_of_int on_ms, VIBE_OFF_MS = word_of_int off_ms,
       PULSE_CYCLES = word_of_int cycles,
       REOPEN_LEAD_MS = word_of_int lead_ms \<rparr>"

subsection \<open>Events\<close>

text \<open>
  One constructor per library call of the sketch. Arguments are the values the callee
  receives: \<^verbatim>\<open>analogWrite(pin, int)\<close>, \<^verbatim>\<open>Servo::write(int)\<close>, \<^verbatim>\<open>delay(unsigned long)\<close>.
\<close>

datatype event =
    SerialBegin int
  | ServoAttach int
  | ServoWrite int
  | PinModeOutput int
  | AnalogWrite int int
  | Delay "32 word"
  | SerialPrint string
  | SerialPrintInt int
  | SerialPrintln string
  | SerialPrintlnInt int

subsection \<open>setup()\<close>

definition setup_fn :: "CycleConfig \<Rightarrow> event list" where
  "setup_fn cfg =
     [ SerialBegin 9600,
       ServoAttach SERVO_PIN,
       ServoWrite (sint (SERVO_OPEN_DEG cfg)),
       PinModeOutput BUZZER_PIN,
       AnalogWrite BUZZER_PIN 0,
       Delay 11000,
       SerialPrintln ''Dust injector initialized. Beginning pulse sequence...'' ]"

subsection \<open>The derived timing of a pulse\<close>

definition closedHold :: "CycleConfig \<Rightarrow> 32 word" where
  "closedHold cfg =
     (if VIBE_OFF_MS cfg > REOPEN_LEAD_MS cfg
      then VIBE_OFF_MS cfg - REOPEN_LEAD_MS cfg else 0)"

definition reopenWait :: "CycleConfig \<Rightarrow> 32 word" where
  "reopenWait cfg =
     (if VIBE_OFF_MS cfg > REOPEN_LEAD_MS cfg
      then REOPEN_LEAD_MS cfg else VIBE_OFF_MS cfg)"

subsection \<open>loop()\<close>

text \<open>The body of the \<^verbatim>\<open>for\<close> loop: one pulse, at loop counter \<open>cycle\<close>.\<close>

definition pulse :: "CycleConfig \<Rightarrow> 16 word \<Rightarrow> event list" where
  "pulse cfg cycle =
     [ SerialPrint ''Pulse '',
       SerialPrintInt (sint (cycle + 1)),
       SerialPrint '' / '',
       SerialPrintlnInt (sint (PULSE_CYCLES cfg)),
       AnalogWrite BUZZER_PIN (uint (VIBE_PWM cfg)),
       Delay (VIBE_ON_MS cfg),
       AnalogWrite BUZZER_PIN 0,
       ServoWrite (sint (SERVO_CLOSE_DEG cfg)),
       Delay (closedHold cfg),
       ServoWrite (sint (SERVO_OPEN_DEG cfg)),
       Delay (reopenWait cfg) ]"

text \<open>
  \<^verbatim>\<open>for (int cycle = 0; cycle < PULSE_CYCLES; cycle++)\<close>, entered at counter \<open>cycle\<close>.
  The comparison is signed and the increment is the 16-bit one.
\<close>

function for_loop :: "CycleConfig \<Rightarrow> 16 word \<Rightarrow> event list" where
  "for_loop cfg cycle =
     (if cycle <s PULSE_CYCLES cfg
      then pulse cfg cycle @ for_loop cfg (cycle + 1)
      else [])"
  by pat_completeness auto

lemma sint_succ_below:
  fixes c p :: "16 word"
  assumes "c <s p"
  shows "sint (c + 1) = sint c + 1"
proof -
  have "sint p < 2 ^ 15"
    using sint_lt [of p] by simp
  with assms have up: "sint c + 1 < 2 ^ 15"
    by (simp add: word_sless_alt)
  have lo: "- (2 ^ 15) \<le> sint c + 1"
    using sint_ge [of c] by simp
  have "sint (c + 1) = signed_take_bit 15 (sint c + 1)"
    by (simp add: sint_word_ariths)
  also have "\<dots> = sint c + 1"
    using lo up by (simp add: signed_take_bit_int_eq_self)
  finally show ?thesis .
qed

termination for_loop
proof (relation "measure (\<lambda>(cfg, cycle). nat (sint (PULSE_CYCLES cfg) - sint cycle))")
  show "wf (measure (\<lambda>(cfg, cycle). nat (sint (PULSE_CYCLES cfg) - sint cycle)))"
    by simp
next
  fix cfg :: CycleConfig and cycle :: "16 word"
  assume "cycle <s PULSE_CYCLES cfg"
  then show "((cfg, cycle + 1), (cfg, cycle))
      \<in> measure (\<lambda>(cfg, cycle). nat (sint (PULSE_CYCLES cfg) - sint cycle))"
    using sint_succ_below [of cycle "PULSE_CYCLES cfg"]
    by (simp add: word_sless_alt)
qed

text \<open>
  \<^verbatim>\<open>while (true) { }\<close> with fuel: \<open>Some ()\<close> would mean that the loop has been left
  within \<open>fuel\<close> tests of its condition, \<open>None\<close> that it is still spinning. The
  condition is the constant \<^verbatim>\<open>true\<close>, so each test goes round again; the body is empty,
  so the loop issues no event.
\<close>

fun halt :: "nat \<Rightarrow> unit option" where
  "halt 0 = None"
| "halt (Suc fuel) = halt fuel"

text \<open>
  \<^verbatim>\<open>loop()\<close>: the events it issues, and whether it returns to its caller within the fuel.
\<close>

definition loop :: "CycleConfig \<Rightarrow> nat \<Rightarrow> event list \<times> unit option" where
  "loop cfg fuel =
     (for_loop cfg 0
        @ [ AnalogWrite BUZZER_PIN 0,
            SerialPrintln ''Pulse sequence complete.'' ],
      halt fuel)"

text \<open>
  The Arduino runtime calls \<^verbatim>\<open>setup()\<close> once and then \<^verbatim>\<open>loop()\<close> again each time it
  returns. \<open>run_loop\<close> is that repetition, \<open>sketch\<close> the whole program; \<open>fuel\<close> bounds how
  long the program is observed.
\<close>

fun run_loop :: "CycleConfig \<Rightarrow> nat \<Rightarrow> event list" where
  "run_loop cfg 0 = []"
| "run_loop cfg (Suc fuel) =
     (case loop cfg fuel of
        (evs, None) \<Rightarrow> evs
      | (evs, Some u) \<Rightarrow> evs @ run_loop cfg fuel)"

definition sketch :: "CycleConfig \<Rightarrow> nat \<Rightarrow> event list" where
  "sketch cfg fuel = setup_fn cfg @ run_loop cfg fuel"

subsection \<open>Reading a trace\<close>

text \<open>The commands to the two actuators, in order; waits and console output dropped.\<close>

fun is_command :: "event \<Rightarrow> bool" where
  "is_command (ServoWrite d) = True"
| "is_command (AnalogWrite p v) = True"
| "is_command e = False"

definition commands :: "event list \<Rightarrow> event list" where
  "commands evs = filter is_command evs"

text \<open>
  The actuator state a trace leaves behind: the last intensity written to the buzzer
  pin and the last angle written to the servo, starting from \<open>v\<close> and \<open>g\<close>.
\<close>

fun vibration_after :: "int option \<Rightarrow> event list \<Rightarrow> int option" where
  "vibration_after v [] = v"
| "vibration_after v (AnalogWrite p x # evs) =
     vibration_after (if p = BUZZER_PIN then Some x else v) evs"
| "vibration_after v (e # evs) = vibration_after v evs"

fun gate_after :: "int option \<Rightarrow> event list \<Rightarrow> int option" where
  "gate_after g [] = g"
| "gate_after g (ServoWrite d # evs) = gate_after (Some d) evs"
| "gate_after g (e # evs) = gate_after g evs"

text \<open>
  A check along a trace: whenever the servo is written, the last intensity written to
  the buzzer pin (or \<open>v\<close>, if none was yet) is 0.
\<close>

fun quiet_at_gate :: "int option \<Rightarrow> event list \<Rightarrow> bool" where
  "quiet_at_gate v [] = True"
| "quiet_at_gate v (ServoWrite d # evs) = (v = Some 0 \<and> quiet_at_gate v evs)"
| "quiet_at_gate v (AnalogWrite p x # evs) =
     quiet_at_gate (if p = BUZZER_PIN then Some x else v) evs"
| "quiet_at_gate v (e # evs) = quiet_at_gate v evs"

section \<open>Properties\<close>

subsection \<open>Unfolding the loops\<close>

declare for_loop.simps [simp del]

lemma pulses_left:
  assumes "c <s PULSE_CYCLES cfg"
  shows "nat (sint (PULSE_CYCLES cfg) - sint c)
           = Suc (nat (sint (PULSE_CYCLES cfg) - sint (c + 1)))"
  using assms sint_succ_below [OF assms] by (simp add: word_sless_alt)

lemma no_pulses_left:
  assumes "\<not> c <s PULSE_CYCLES cfg"
  shows "nat (sint (PULSE_CYCLES cfg) - sint c) = 0"
  using assms by (simp add: word_sless_alt)

lemma commands_append: "commands (xs @ ys) = commands xs @ commands ys"
  by (simp add: commands_def)

lemma commands_pulse:
  "commands (pulse cfg c) =
     [ AnalogWrite BUZZER_PIN (uint (VIBE_PWM cfg)),
       AnalogWrite BUZZER_PIN 0,
       ServoWrite (sint (SERVO_CLOSE_DEG cfg)),
       ServoWrite (sint (SERVO_OPEN_DEG cfg)) ]"
  by (simp add: commands_def pulse_def)

lemma commands_for_loop:
  "commands (for_loop cfg c) =
     concat (replicate (nat (sint (PULSE_CYCLES cfg) - sint c))
       [ AnalogWrite BUZZER_PIN (uint (VIBE_PWM cfg)),
         AnalogWrite BUZZER_PIN 0,
         ServoWrite (sint (SERVO_CLOSE_DEG cfg)),
         ServoWrite (sint (SERVO_OPEN_DEG cfg)) ])"
proof (induction cfg c rule: for_loop.induct)
  case (1 cfg cycle)
  show ?case
  proof (cases "cycle <s PULSE_CYCLES cfg")
    case True
    have "for_loop cfg cycle = pulse cfg cycle @ for_loop cfg (cycle + 1)"
      using True by (subst for_loop.simps) simp
    then show ?thesis
      using "1.IH" [OF True] pulses_left [OF True]
      by (simp add: commands_append commands_pulse)
  next
    case False
    have "for_loop cfg cycle = []"
      using False by (subst for_loop.simps) simp
    then show ?thesis
      using no_pulses_left [OF False] by (simp add: commands_def)
  qed
qed

lemma for_loop_unfold_true:
  "c <s PULSE_CYCLES cfg \<Longrightarrow> for_loop cfg c = pulse cfg c @ for_loop cfg (c + 1)"
  by (subst for_loop.simps) simp

lemma for_loop_unfold_false:
  "\<not> c <s PULSE_CYCLES cfg \<Longrightarrow> for_loop cfg c = []"
  by (subst for_loop.simps) simp

lemma halt_never: "halt fuel = None"
  by (induction fuel) simp_all

lemma loop_events:
  "fst (loop cfg fuel) =
     for_loop cfg 0
       @ [AnalogWrite BUZZER_PIN 0, SerialPrintln ''Pulse sequence complete.'']"
  by (simp add: loop_def)

lemma run_loop_once: "run_loop cfg (Suc fuel) = fst (loop cfg fuel)"
  by (simp add: loop_def halt_never)

lemma vibration_after_append:
  "vibration_after v (xs @ ys) = vibration_after (vibration_after v xs) ys"
  by (induction v xs rule: vibration_after.induct) simp_all

lemma gate_after_append:
  "gate_after g (xs @ ys) = gate_after (gate_after g xs) ys"
  by (induction g xs rule: gate_after.induct) simp_all

lemma quiet_at_gate_append:
  "quiet_at_gate v (xs @ ys) \<longleftrightarrow>
     quiet_at_gate v xs \<and> quiet_at_gate (vibration_after v xs) ys"
  by (induction v xs rule: quiet_at_gate.induct) simp_all

lemma quiet_at_gate_split:
  assumes "quiet_at_gate v evs" and "evs = pre @ ServoWrite d # post"
  shows "vibration_after v pre = Some 0"
  using assms by (simp add: quiet_at_gate_append)

lemma quiet_pulse: "quiet_at_gate v (pulse cfg c)"
  by (simp add: pulse_def)

lemma vibration_after_pulse: "vibration_after v (pulse cfg c) = Some 0"
  by (simp add: pulse_def)

lemma gate_after_pulse: "gate_after g (pulse cfg c) = Some (sint (SERVO_OPEN_DEG cfg))"
  by (simp add: pulse_def)

lemma quiet_for_loop: "quiet_at_gate v (for_loop cfg c)"
proof (induction cfg c arbitrary: v rule: for_loop.induct)
  case (1 cfg cycle)
  show ?case
  proof (cases "cycle <s PULSE_CYCLES cfg")
    case True
    then show ?thesis
      using "1.IH" [OF True]
      by (simp add: for_loop_unfold_true quiet_at_gate_append quiet_pulse)
  next
    case False
    then show ?thesis by (simp add: for_loop_unfold_false)
  qed
qed

lemma vibration_after_for_loop:
  "vibration_after v (for_loop cfg c) = (if c <s PULSE_CYCLES cfg then Some 0 else v)"
proof (induction cfg c arbitrary: v rule: for_loop.induct)
  case (1 cfg cycle)
  show ?case
  proof (cases "cycle <s PULSE_CYCLES cfg")
    case True
    then show ?thesis
      using "1.IH" [OF True, of "Some 0"]
      by (simp add: for_loop_unfold_true vibration_after_append vibration_after_pulse)
  next
    case False
    then show ?thesis by (simp add: for_loop_unfold_false)
  qed
qed

lemma gate_after_for_loop:
  "gate_after g (for_loop cfg c) =
     (if c <s PULSE_CYCLES cfg then Some (sint (SERVO_OPEN_DEG cfg)) else g)"
proof (induction cfg c arbitrary: g rule: for_loop.induct)
  case (1 cfg cycle)
  show ?case
  proof (cases "cycle <s PULSE_CYCLES cfg")
    case True
    then show ?thesis
      using "1.IH" [OF True, of "Some (sint (SERVO_OPEN_DEG cfg))"]
      by (simp add: for_loop_unfold_true gate_after_append gate_after_pulse)
  next
    case False
    then show ?thesis by (simp add: for_loop_unfold_false)
  qed
qed

lemma count_list_concat_replicate:
  "count_list (concat (replicate n xs)) x = n * count_list xs x"
  by (induction n) simp_all

lemma commands_loop:
  "commands (fst (loop cfg fuel)) =
     concat (replicate (nat (sint (PULSE_CYCLES cfg)))
       [ AnalogWrite BUZZER_PIN (uint (VIBE_PWM cfg)),
         AnalogWrite BUZZER_PIN 0,
         ServoWrite (sint (SERVO_CLOSE_DEG cfg)),
         ServoWrite (sint (SERVO_OPEN_DEG cfg)) ])
     @ [AnalogWrite BUZZER_PIN 0]"
  using commands_for_loop [of cfg 0]
  by (simp add: loop_events commands_append) (simp add: commands_def)

lemma quiet_loop: "quiet_at_gate v (fst (loop cfg fuel))"
  by (simp add: loop_events quiet_at_gate_append quiet_for_loop)

lemma quiet_run_loop: "quiet_at_gate v (run_loop cfg fuel)"
proof (cases fuel)
  case 0
  then show ?thesis by simp
next
  case (Suc k)
  then show ?thesis by (simp only: run_loop_once quiet_loop)
qed

lemma setup_before_gate:
  assumes "setup_fn cfg = pre @ ServoWrite d # post"
  shows "vibration_after None pre = None"
  using assms by (auto simp: setup_fn_def Cons_eq_append_conv)

lemma vibration_after_setup: "vibration_after v (setup_fn cfg) = Some 0"
  by (simp add: setup_fn_def)

lemma gate_after_setup: "gate_after g (setup_fn cfg) = Some (sint (SERVO_OPEN_DEG cfg))"
  by (simp add: setup_fn_def)

lemma sketch_before_gate:
  assumes "sketch cfg fuel = pre @ ServoWrite d # post"
  shows "vibration_after None pre = None \<or> vibration_after None pre = Some 0"
proof -
  from assms have "setup_fn cfg @ run_loop cfg fuel = pre @ ServoWrite d # post"
    by (simp add: sketch_def)
  then obtain us where
    "(setup_fn cfg = pre @ us \<and> us @ run_loop cfg fuel = ServoWrite d # post) \<or>
     (setup_fn cfg @ us = pre \<and> run_loop cfg fuel = us @ ServoWrite d # post)"
    by (auto simp: append_eq_append_conv2)
  then consider
      (in_setup) us' where "setup_fn cfg = pre @ ServoWrite d # us'"
    | (in_loop) us where "pre = setup_fn cfg @ us" "run_loop cfg fuel = us @ ServoWrite d # post"
    by (cases us) auto
  then show ?thesis
  proof cases
    case in_setup
    then show ?thesis by (simp add: setup_before_gate)
  next
    case in_loop
    have "vibration_after (Some 0) us = Some 0"
      using quiet_at_gate_split [OF quiet_run_loop in_loop(2)] .
    then show ?thesis
      by (simp add: in_loop(1) vibration_after_append vibration_after_setup)
  qed
qed

lemma sketch_events:
  "sketch cfg (Suc fuel) =
     setup_fn cfg @ for_loop cfg 0
       @ [AnalogWrite BUZZER_PIN 0, SerialPrintln ''Pulse sequence complete.'']"
  by (simp only: sketch_def run_loop_once loop_events)

lemma commands_setup:
  "commands (setup_fn cfg) = [ServoWrite (sint (SERVO_OPEN_DEG cfg)), AnalogWrite BUZZER_PIN 0]"
  by (simp add: setup_fn_def commands_def)

lemma for_loop_none:
  "sint (PULSE_CYCLES cfg) \<le> 0 \<Longrightarrow> for_loop cfg 0 = []"
  by (rule for_loop_unfold_false) (simp add: word_sless_alt)

lemma println_pulse: "SerialPrintln s \<notin> set (pulse cfg c)"
  by (simp add: pulse_def)

lemma print_pulse:
  "SerialPrint s \<in> set (pulse cfg c) \<Longrightarrow> s = ''Pulse '' \<or> s = '' / ''"
  by (auto simp: pulse_def)

lemma println_for_loop: "SerialPrintln s \<notin> set (for_loop cfg c)"
proof (induction cfg c rule: for_loop.induct)
  case (1 cfg cycle)
  show ?case
  proof (cases "cycle <s PULSE_CYCLES cfg")
    case True
    then show ?thesis
      using "1.IH" [OF True] by (simp add: for_loop_unfold_true println_pulse)
  next
    case False
    then show ?thesis by (simp add: for_loop_unfold_false)
  qed
qed

lemma print_for_loop:
  "SerialPrint s \<in> set (for_loop cfg c) \<Longrightarrow> s = ''Pulse '' \<or> s = '' / ''"
proof (induction cfg c rule: for_loop.induct)
  case (1 cfg cycle)
  show ?case
  proof (cases "cycle <s PULSE_CYCLES cfg")
    case True
    with "1.prems" have "SerialPrint s \<in> set (pulse cfg cycle)
        \<or> SerialPrint s \<in> set (for_loop cfg (cycle + 1))"
      by (simp add: for_loop_unfold_true)
    then show ?thesis
      using "1.IH" [OF True] print_pulse by blast
  next
    case False
    with "1.prems" show ?thesis by (simp add: for_loop_unfold_false)
  qed
qed

lemma println_sketch:
  assumes "SerialPrintln s \<in> set (sketch cfg fuel)"
  shows "s = ''Dust injector initialized. Beginning pulse sequence...''
       \<or> s = ''Pulse sequence complete.''"
proof (cases fuel)
  case 0
  with assms show ?thesis by (simp add: sketch_def setup_fn_def)
next
  case (Suc k)
  with assms have "SerialPrintln s \<in> set (setup_fn cfg @ for_loop cfg 0
       @ [AnalogWrite BUZZER_PIN 0, SerialPrintln ''Pulse sequence complete.''])"
    by (simp only: sketch_events)
  then show ?thesis
    by (simp add: setup_fn_def println_for_loop)
qed

lemma print_sketch:
  assumes "SerialPrint s \<in> set (sketch cfg fuel)"
  shows "s = ''Pulse '' \<or> s = '' / ''"
proof (cases fuel)
  case 0
  with assms show ?thesis by (simp add: sketch_def setup_fn_def)
next
  case (Suc k)
  with assms have "SerialPrint s \<in> set (setup_fn cfg @ for_loop cfg 0
       @ [AnalogWrite BUZZER_PIN 0, SerialPrintln ''Pulse sequence complete.''])"
    by (simp only: sketch_events)
  then have "SerialPrint s \<in> set (for_loop cfg 0)"
    by (simp add: setup_fn_def)
  then show ?thesis by (rule print_for_loop)
qed

lemma last_sketch:
  "last (sketch cfg (Suc fuel)) = SerialPrintln ''Pulse sequence complete.''"
  by (simp add: sketch_events)

lemma negative_count_as_zero:
  assumes "sint (PULSE_CYCLES cfg) < 0"
  shows "fst (loop cfg fuel) =
           [AnalogWrite BUZZER_PIN 0, SerialPrintln ''Pulse sequence complete.''] \<and>
         loop cfg fuel = loop (cfg\<lparr>PULSE_CYCLES := 0\<rparr>) fuel \<and>
         sketch cfg fuel = sketch (cfg\<lparr>PULSE_CYCLES := 0\<rparr>) fuel"
proof -
  have a: "for_loop cfg 0 = []"
    using assms by (simp add: for_loop_none)
  have b: "for_loop (cfg\<lparr>PULSE_CYCLES := 0\<rparr>) 0 = []"
    by (simp add: for_loop_none)
  have l: "loop cfg k = loop (cfg\<lparr>PULSE_CYCLES := 0\<rparr>) k" for k
    by (simp add: loop_def a b)
  have r: "run_loop cfg k = run_loop (cfg\<lparr>PULSE_CYCLES := 0\<rparr>) k" for k
    by (cases k) (simp_all only: run_loop_once l run_loop.simps(1))
  have "fst (loop cfg fuel) =
      [AnalogWrite BUZZER_PIN 0, SerialPrintln ''Pulse sequence complete.'']"
    by (simp add: loop_events a)
  moreover have "sketch cfg fuel = sketch (cfg\<lparr>PULSE_CYCLES := 0\<rparr>) fuel"
    by (simp add: sketch_def r setup_fn_def)
  ultimately show ?thesis
    using l [of fuel] by blast
qed

lemma initialise_shipped: "initialise 123 130 255 500 1500 1100 250 = sketch_config"
  by (simp add: initialise_def sketch_config_def)

lemma initialise_durations:
  "uint (VIBE_ON_MS (initialise od cd pwm on_ms off_ms n lead_ms)) = on_ms mod 2 ^ 32 \<and>
   uint (VIBE_OFF_MS (initialise od cd pwm on_ms off_ms n lead_ms)) = off_ms mod 2 ^ 32 \<and>
   uint (REOPEN_LEAD_MS (initialise od cd pwm on_ms off_ms n lead_ms)) = lead_ms mod 2 ^ 32"
  by (simp add: initialise_def uint_word_of_int)

subsection \<open>Derived timing\<close>

text \<open>
  C1. The two waits of the off-period follow the clamping policy of the code. When
  \<open>REOPEN_LEAD_MS\<close> is at least \<open>VIBE_OFF_MS\<close> (equality included), the closed hold is
  0 and the reopen wait is the whole off-period. When \<open>REOPEN_LEAD_MS\<close> is smaller, the
  closed hold is \<open>VIBE_OFF_MS - REOPEN_LEAD_MS\<close> (as words and as numbers) and the
  reopen wait is \<open>REOPEN_LEAD_MS\<close>.
\<close>

theorem derived_timing_clamping:
  "(REOPEN_LEAD_MS cfg \<ge> VIBE_OFF_MS cfg \<longrightarrow>
      closedHold cfg = 0 \<and> reopenWait cfg = VIBE_OFF_MS cfg) \<and>
   (REOPEN_LEAD_MS cfg < VIBE_OFF_MS cfg \<longrightarrow>
      closedHold cfg = VIBE_OFF_MS cfg - REOPEN_LEAD_MS cfg \<and>
      uint (closedHold cfg) = uint (VIBE_OFF_MS cfg) - uint (REOPEN_LEAD_MS cfg) \<and>
      reopenWait cfg = REOPEN_LEAD_MS cfg)"
  by (auto simp: closedHold_def reopenWait_def uint_sub_if' word_less_def word_le_def)

theorem derived_timing_clamping_witness:
  "REOPEN_LEAD_MS sketch_config < VIBE_OFF_MS sketch_config \<and>
   closedHold sketch_config = 1250 \<and> reopenWait sketch_config = 250 \<and>
   REOPEN_LEAD_MS (sketch_config\<lparr>REOPEN_LEAD_MS := 2000\<rparr>)
     \<ge> VIBE_OFF_MS (sketch_config\<lparr>REOPEN_LEAD_MS := 2000\<rparr>) \<and>
   closedHold (sketch_config\<lparr>REOPEN_LEAD_MS := 2000\<rparr>) = 0 \<and>
   reopenWait (sketch_config\<lparr>REOPEN_LEAD_MS := 2000\<rparr>) = 1500 \<and>
   REOPEN_LEAD_MS (sketch_config\<lparr>REOPEN_LEAD_MS := 1500\<rparr>)
     \<ge> VIBE_OFF_MS (sketch_config\<lparr>REOPEN_LEAD_MS := 1500\<rparr>) \<and>
   closedHold (sketch_config\<lparr>REOPEN_LEAD_MS := 1500\<rparr>) = 0 \<and>
   reopenWait (sketch_config\<lparr>REOPEN_LEAD_MS := 1500\<rparr>) = 1500"
  using derived_timing_clamping [of sketch_config]
    derived_timing_clamping [of "sketch_config\<lparr>REOPEN_LEAD_MS := 2000\<rparr>"]
    derived_timing_clamping [of "sketch_config\<lparr>REOPEN_LEAD_MS := 1500\<rparr>"]
  by (simp add: sketch_config_def)

text \<open>
  C2. At every parameterisation the closed hold and the reopen wait add up to the
  off-period exactly: as 32-bit words, and as numbers (the sum does not wrap).
\<close>

theorem off_period_partition:
  "closedHold cfg + reopenWait cfg = VIBE_OFF_MS cfg \<and>
   uint (closedHold cfg) + uint (reopenWait cfg) = uint (VIBE_OFF_MS cfg)"
  by (auto simp: closedHold_def reopenWait_def uint_sub_if' word_less_def word_le_def)

text \<open>
  C10. The subtraction is guarded, so neither wait wraps around: read as numbers, the
  closed hold is the difference of the off-period and the lead time cut off at 0, the
  reopen wait is the smaller of the two, and neither exceeds the off-period.
\<close>

theorem derived_timing_no_wrap:
  "uint (closedHold cfg) = max 0 (uint (VIBE_OFF_MS cfg) - uint (REOPEN_LEAD_MS cfg)) \<and>
   uint (reopenWait cfg) = min (uint (REOPEN_LEAD_MS cfg)) (uint (VIBE_OFF_MS cfg)) \<and>
   closedHold cfg \<le> VIBE_OFF_MS cfg \<and> reopenWait cfg \<le> VIBE_OFF_MS cfg"
  by (auto simp: closedHold_def reopenWait_def uint_sub_if' word_less_def word_le_def)

subsection \<open>The command sequence of a run\<close>

text \<open>
  C3. The actuator commands of one call of \<^verbatim>\<open>loop()\<close> are \<open>n\<close> copies of the block
  vibration on (at \<open>VIBE_PWM\<close>), vibration off, gate close, gate reopen, followed by the
  one terminal vibration off, where \<open>n\<close> is \<open>PULSE_CYCLES\<close> read as a signed number (for
  a non-negative count, the count itself). Commands are told apart by their place in the
  block. Counted by value instead, there are exactly \<open>n\<close> vibration-on commands when
  \<open>VIBE_PWM\<close> is not 0, and exactly \<open>n\<close> gate-close and \<open>n\<close> gate-reopen commands when
  the two angles differ.
\<close>

theorem pulse_commands_interleaved:
  "commands (fst (loop cfg fuel)) =
     concat (replicate (nat (sint (PULSE_CYCLES cfg)))
       [ AnalogWrite BUZZER_PIN (uint (VIBE_PWM cfg)),
         AnalogWrite BUZZER_PIN 0,
         ServoWrite (sint (SERVO_CLOSE_DEG cfg)),
         ServoWrite (sint (SERVO_OPEN_DEG cfg)) ])
     @ [AnalogWrite BUZZER_PIN 0] \<and>
   (VIBE_PWM cfg \<noteq> 0 \<longrightarrow>
      count_list (commands (fst (loop cfg fuel)))
        (AnalogWrite BUZZER_PIN (uint (VIBE_PWM cfg))) = nat (sint (PULSE_CYCLES cfg))) \<and>
   (SERVO_OPEN_DEG cfg \<noteq> SERVO_CLOSE_DEG cfg \<longrightarrow>
      count_list (commands (fst (loop cfg fuel)))
        (ServoWrite (sint (SERVO_CLOSE_DEG cfg))) = nat (sint (PULSE_CYCLES cfg)) \<and>
      count_list (commands (fst (loop cfg fuel)))
        (ServoWrite (sint (SERVO_OPEN_DEG cfg))) = nat (sint (PULSE_CYCLES cfg)))"
proof (intro conjI impI)
  show "commands (fst (loop cfg fuel)) =
     concat (replicate (nat (sint (PULSE_CYCLES cfg)))
       [ AnalogWrite BUZZER_PIN (uint (VIBE_PWM cfg)),
         AnalogWrite BUZZER_PIN 0,
         ServoWrite (sint (SERVO_CLOSE_DEG cfg)),
         ServoWrite (sint (SERVO_OPEN_DEG cfg)) ])
     @ [AnalogWrite BUZZER_PIN 0]"
    by (rule commands_loop)
next
  assume "VIBE_PWM cfg \<noteq> 0"
  then have "uint (VIBE_PWM cfg) \<noteq> 0"
    by (simp add: uint_0_iff)
  then show "count_list (commands (fst (loop cfg fuel)))
        (AnalogWrite BUZZER_PIN (uint (VIBE_PWM cfg))) = nat (sint (PULSE_CYCLES cfg))"
    by (simp add: commands_loop count_list_concat_replicate)
next
  assume "SERVO_OPEN_DEG cfg \<noteq> SERVO_CLOSE_DEG cfg"
  then have ne: "sint (SERVO_OPEN_DEG cfg) \<noteq> sint (SERVO_CLOSE_DEG cfg)"
    by (auto dest: signed_word_eqI)
  from ne show "count_list (commands (fst (loop cfg fuel)))
        (ServoWrite (sint (SERVO_CLOSE_DEG cfg))) = nat (sint (PULSE_CYCLES cfg))"
    by (simp add: commands_loop count_list_concat_replicate)
  from ne show "count_list (commands (fst (loop cfg fuel)))
        (ServoWrite (sint (SERVO_OPEN_DEG cfg))) = nat (sint (PULSE_CYCLES cfg))"
    by (simp add: commands_loop count_list_concat_replicate)
qed

theorem pulse_commands_interleaved_witness:
  "VIBE_PWM (sketch_config\<lparr>PULSE_CYCLES := 3\<rparr>) \<noteq> 0 \<and>
   SERVO_OPEN_DEG (sketch_config\<lparr>PULSE_CYCLES := 3\<rparr>)
     \<noteq> SERVO_CLOSE_DEG (sketch_config\<lparr>PULSE_CYCLES := 3\<rparr>) \<and>
   commands (fst (loop (sketch_config\<lparr>PULSE_CYCLES := 3\<rparr>) 0)) =
     [ AnalogWrite 11 255, AnalogWrite 11 0, ServoWrite 130, ServoWrite 123,
       AnalogWrite 11 255, AnalogWrite 11 0, ServoWrite 130, ServoWrite 123,
       AnalogWrite 11 255, AnalogWrite 11 0, ServoWrite 130, ServoWrite 123,
       AnalogWrite 11 0 ] \<and>
   count_list (commands (fst (loop (sketch_config\<lparr>PULSE_CYCLES := 3\<rparr>) 0)))
     (AnalogWrite 11 255) = 3 \<and>
   count_list (commands (fst (loop (sketch_config\<lparr>PULSE_CYCLES := 3\<rparr>) 0)))
     (ServoWrite 130) = 3 \<and>
   count_list (commands (fst (loop (sketch_config\<lparr>PULSE_CYCLES := 3\<rparr>) 0)))
     (ServoWrite 123) = 3"
  using pulse_commands_interleaved [of "sketch_config\<lparr>PULSE_CYCLES := 3\<rparr>" 0]
  by (simp add: sketch_config_def BUZZER_PIN_def numeral_3_eq_3)

text \<open>
  C4. Vibration is off when the gate is told to close. Wherever the gate-close command
  stands in a pulse, or in the events of one call of \<^verbatim>\<open>loop()\<close>, the last intensity
  written to the buzzer pin before it is 0, whatever the intensity \<open>v\<close> was when the
  pulse or the call began. In the whole program, from power-up, the last intensity
  written before a gate-close command is never a non-zero one.
\<close>

theorem vibration_off_before_gate_close:
  "(\<forall>pre post. pulse cfg c = pre @ ServoWrite (sint (SERVO_CLOSE_DEG cfg)) # post
       \<longrightarrow> vibration_after v pre = Some 0) \<and>
   (\<forall>pre post. fst (loop cfg fuel) = pre @ ServoWrite (sint (SERVO_CLOSE_DEG cfg)) # post
       \<longrightarrow> vibration_after v pre = Some 0) \<and>
   (\<forall>pre post x. sketch cfg fuel = pre @ ServoWrite (sint (SERVO_CLOSE_DEG cfg)) # post
       \<longrightarrow> vibration_after None pre = Some x \<longrightarrow> x = 0)"
proof (intro conjI allI impI)
  fix pre post
  assume "pulse cfg c = pre @ ServoWrite (sint (SERVO_CLOSE_DEG cfg)) # post"
  then show "vibration_after v pre = Some 0"
    by (rule quiet_at_gate_split [OF quiet_pulse])
next
  fix pre post
  assume "fst (loop cfg fuel) = pre @ ServoWrite (sint (SERVO_CLOSE_DEG cfg)) # post"
  then show "vibration_after v pre = Some 0"
    by (rule quiet_at_gate_split [OF quiet_loop])
next
  fix pre post x
  assume "sketch cfg fuel = pre @ ServoWrite (sint (SERVO_CLOSE_DEG cfg)) # post"
    and "vibration_after None pre = Some x"
  then show "x = 0"
    using sketch_before_gate [of cfg fuel pre "sint (SERVO_CLOSE_DEG cfg)" post] by auto
qed

theorem vibration_off_before_gate_close_witness:
  "pulse sketch_config 0 =
     [ SerialPrint ''Pulse '', SerialPrintInt 1, SerialPrint '' / '', SerialPrintlnInt 1100,
       AnalogWrite 11 255, Delay 500, AnalogWrite 11 0 ]
     @ ServoWrite (sint (SERVO_CLOSE_DEG sketch_config))
     # [ Delay 1250, ServoWrite 123, Delay 250 ] \<and>
   vibration_after (Some 255)
     [ SerialPrint ''Pulse '', SerialPrintInt 1, SerialPrint '' / '', SerialPrintlnInt 1100,
       AnalogWrite 11 255, Delay 500, AnalogWrite 11 0 ] = Some 0 \<and>
   fst (loop (sketch_config\<lparr>PULSE_CYCLES := 1\<rparr>) 0) =
     [ SerialPrint ''Pulse '', SerialPrintInt 1, SerialPrint '' / '', SerialPrintlnInt 1,
       AnalogWrite 11 255, Delay 500, AnalogWrite 11 0 ]
     @ ServoWrite (sint (SERVO_CLOSE_DEG (sketch_config\<lparr>PULSE_CYCLES := 1\<rparr>)))
     # [ Delay 1250, ServoWrite 123, Delay 250,
         AnalogWrite 11 0, SerialPrintln ''Pulse sequence complete.'' ] \<and>
   vibration_after (Some 255)
     [ SerialPrint ''Pulse '', SerialPrintInt 1, SerialPrint '' / '', SerialPrintlnInt 1,
       AnalogWrite 11 255, Delay 500, AnalogWrite 11 0 ] = Some 0 \<and>
   sketch (sketch_config\<lparr>PULSE_CYCLES := 1\<rparr>) 1 =
     [ SerialBegin 9600, ServoAttach 6, ServoWrite 123, PinModeOutput 11,
       AnalogWrite 11 0, Delay 11000,
       SerialPrintln ''Dust injector initialized. Beginning pulse sequence...'',
       SerialPrint ''Pulse '', SerialPrintInt 1, SerialPrint '' / '', SerialPrintlnInt 1,
       AnalogWrite 11 255, Delay 500, AnalogWrite 11 0 ]
     @ ServoWrite (sint (SERVO_CLOSE_DEG (sketch_config\<lparr>PULSE_CYCLES := 1\<rparr>)))
     # [ Delay 1250, ServoWrite 123, Delay 250,
         AnalogWrite 11 0, SerialPrintln ''Pulse sequence complete.'' ] \<and>
   vibration_after None
     [ SerialBegin 9600, ServoAttach 6, ServoWrite 123, PinModeOutput 11,
       AnalogWrite 11 0, Delay 11000,
       SerialPrintln ''Dust injector initialized. Beginning pulse sequence...'',
       SerialPrint ''Pulse '', SerialPrintInt 1, SerialPrint '' / '', SerialPrintlnInt 1,
       AnalogWrite 11 255, Delay 500, AnalogWrite 11 0 ] = Some 0"
proof -
  let ?cfg = "sketch_config\<lparr>PULSE_CYCLES := 1\<rparr>"
  let ?pre = "[ SerialPrint ''Pulse '', SerialPrintInt 1, SerialPrint '' / '',
       SerialPrintlnInt 1100, AnalogWrite 11 255, Delay 500, AnalogWrite 11 0 ]"
  let ?pre1 = "[ SerialPrint ''Pulse '', SerialPrintInt 1, SerialPrint '' / '',
       SerialPrintlnInt 1, AnalogWrite 11 255, Delay 500, AnalogWrite 11 0 ]"
  have p: "pulse sketch_config 0 =
      ?pre @ ServoWrite (sint (SERVO_CLOSE_DEG sketch_config))
        # [ Delay 1250, ServoWrite 123, Delay 250 ]"
    by (simp add: pulse_def sketch_config_def BUZZER_PIN_def closedHold_def reopenWait_def)
  have f: "for_loop ?cfg 0 = pulse ?cfg 0"
    by (simp add: for_loop.simps [of _ 0] for_loop.simps [of _ 1] sketch_config_def
        word_sless_alt)
  have l: "fst (loop ?cfg 0) =
      ?pre1 @ ServoWrite (sint (SERVO_CLOSE_DEG ?cfg))
        # [ Delay 1250, ServoWrite 123, Delay 250,
            AnalogWrite 11 0, SerialPrintln ''Pulse sequence complete.'' ]"
    unfolding loop_events f
    by (simp add: pulse_def sketch_config_def BUZZER_PIN_def closedHold_def reopenWait_def)
  from vibration_off_before_gate_close [of sketch_config 0 "Some 255" 0]
  have a: "vibration_after (Some 255) ?pre = Some 0" using p by blast
  from vibration_off_before_gate_close [of ?cfg 0 "Some 255" 0]
  have b: "vibration_after (Some 255) ?pre1 = Some 0" using l by blast
  let ?pre2 = "[ SerialBegin 9600, ServoAttach 6, ServoWrite 123, PinModeOutput 11,
       AnalogWrite 11 0, Delay 11000,
       SerialPrintln ''Dust injector initialized. Beginning pulse sequence...'',
       SerialPrint ''Pulse '', SerialPrintInt 1, SerialPrint '' / '', SerialPrintlnInt 1,
       AnalogWrite 11 255, Delay 500, AnalogWrite 11 0 ]"
  have s: "sketch ?cfg 1 =
      ?pre2 @ ServoWrite (sint (SERVO_CLOSE_DEG ?cfg))
        # [ Delay 1250, ServoWrite 123, Delay 250,
            AnalogWrite 11 0, SerialPrintln ''Pulse sequence complete.'' ]"
    using sketch_events [of ?cfg 0] unfolding f
    by (simp add: setup_fn_def pulse_def sketch_config_def SERVO_PIN_def BUZZER_PIN_def
        closedHold_def reopenWait_def)
  have v: "vibration_after None ?pre2 = Some 0"
    by (simp add: BUZZER_PIN_def)
  from p l a b s v show ?thesis by blast
qed

subsection \<open>The end of a run\<close>

text \<open>
  C5. After the pulses, \<^verbatim>\<open>loop()\<close> issues one more actuator command, vibration off,
  and never returns, so the runtime never calls it again. However long the program is
  observed, its events are those of \<^verbatim>\<open>setup()\<close>, the pulses, the shutdown and the
  completion message, and nothing more: its actuator commands are the two of
  \<^verbatim>\<open>setup()\<close>, \<open>n\<close> pulse blocks and the one shutdown.
\<close>

theorem single_shutdown_then_halt:
  "snd (loop cfg fuel) = None \<and>
   commands (fst (loop cfg fuel)) = commands (for_loop cfg 0) @ [AnalogWrite BUZZER_PIN 0] \<and>
   sketch cfg (Suc fuel) =
     setup_fn cfg @ for_loop cfg 0
       @ [AnalogWrite BUZZER_PIN 0, SerialPrintln ''Pulse sequence complete.''] \<and>
   commands (sketch cfg (Suc fuel)) =
     [ServoWrite (sint (SERVO_OPEN_DEG cfg)), AnalogWrite BUZZER_PIN 0]
     @ concat (replicate (nat (sint (PULSE_CYCLES cfg)))
         [ AnalogWrite BUZZER_PIN (uint (VIBE_PWM cfg)),
           AnalogWrite BUZZER_PIN 0,
           ServoWrite (sint (SERVO_CLOSE_DEG cfg)),
           ServoWrite (sint (SERVO_OPEN_DEG cfg)) ])
     @ [AnalogWrite BUZZER_PIN 0]"
proof (intro conjI)
  show "snd (loop cfg fuel) = None"
    by (simp add: loop_def halt_never)
  show "commands (fst (loop cfg fuel)) = commands (for_loop cfg 0) @ [AnalogWrite BUZZER_PIN 0]"
    by (simp add: loop_events commands_append) (simp add: commands_def)
  show "sketch cfg (Suc fuel) =
     setup_fn cfg @ for_loop cfg 0
       @ [AnalogWrite BUZZER_PIN 0, SerialPrintln ''Pulse sequence complete.'']"
    by (rule sketch_events)
  have "commands (sketch cfg (Suc fuel)) = commands (setup_fn cfg) @ commands (fst (loop cfg fuel))"
    by (simp only: sketch_def run_loop_once commands_append)
  then show "commands (sketch cfg (Suc fuel)) =
     [ServoWrite (sint (SERVO_OPEN_DEG cfg)), AnalogWrite BUZZER_PIN 0]
     @ concat (replicate (nat (sint (PULSE_CYCLES cfg)))
         [ AnalogWrite BUZZER_PIN (uint (VIBE_PWM cfg)),
           AnalogWrite BUZZER_PIN 0,
           ServoWrite (sint (SERVO_CLOSE_DEG cfg)),
           ServoWrite (sint (SERVO_OPEN_DEG cfg)) ])
     @ [AnalogWrite BUZZER_PIN 0]"
    by (simp only: commands_setup commands_loop)
qed

text \<open>
  C6. With \<open>PULSE_CYCLES = 0\<close> the call of \<^verbatim>\<open>loop()\<close> issues the terminal vibration
  shutdown as its only actuator command and reports the sequence complete: no
  vibration-on, no gate command, no error.
\<close>

theorem zero_pulses_only_shutdown:
  assumes "PULSE_CYCLES cfg = 0"
  shows "fst (loop cfg fuel) =
           [AnalogWrite BUZZER_PIN 0, SerialPrintln ''Pulse sequence complete.''] \<and>
         commands (fst (loop cfg fuel)) = [AnalogWrite BUZZER_PIN 0]"
proof -
  have "for_loop cfg 0 = []"
    using assms by (simp add: for_loop_none)
  then show ?thesis
    by (simp add: loop_events commands_def)
qed

theorem zero_pulses_only_shutdown_witness:
  "PULSE_CYCLES (sketch_config\<lparr>PULSE_CYCLES := 0\<rparr>) = 0 \<and>
   fst (loop (sketch_config\<lparr>PULSE_CYCLES := 0\<rparr>) 0) =
     [AnalogWrite 11 0, SerialPrintln ''Pulse sequence complete.''] \<and>
   commands (fst (loop (sketch_config\<lparr>PULSE_CYCLES := 0\<rparr>) 0)) = [AnalogWrite 11 0]"
  using zero_pulses_only_shutdown [of "sketch_config\<lparr>PULSE_CYCLES := 0\<rparr>" 0]
  by (simp add: BUZZER_PIN_def commands_def)

text \<open>
  C7, as claimed: a negative pulse count or a negative duration is rejected with an
  error. Neither is. With \<open>PULSE_CYCLES = -1\<close> the program runs \<^verbatim>\<open>setup()\<close>, skips the
  pulses, shuts the vibration down and reports the sequence complete. With
  \<open>VIBE_OFF_MS\<close> initialised to \<open>-1\<close> the constant holds 4294967295 and the pulse runs
  with a closed hold of 4294967045 ms. No event is an error report.
\<close>

theorem negative_pulse_count_not_rejected:
  "sint (PULSE_CYCLES (sketch_config\<lparr>PULSE_CYCLES := - 1\<rparr>)) = - 1 \<and>
   sketch (sketch_config\<lparr>PULSE_CYCLES := - 1\<rparr>) 1 =
     [ SerialBegin 9600, ServoAttach 6, ServoWrite 123, PinModeOutput 11,
       AnalogWrite 11 0, Delay 11000,
       SerialPrintln ''Dust injector initialized. Beginning pulse sequence...'',
       AnalogWrite 11 0, SerialPrintln ''Pulse sequence complete.'' ] \<and>
   uint (VIBE_OFF_MS (initialise 123 130 255 500 (- 1) 1 250)) = 4294967295 \<and>
   sketch (initialise 123 130 255 500 (- 1) 1 250) 1 =
     [ SerialBegin 9600, ServoAttach 6, ServoWrite 123, PinModeOutput 11,
       AnalogWrite 11 0, Delay 11000,
       SerialPrintln ''Dust injector initialized. Beginning pulse sequence...'',
       SerialPrint ''Pulse '', SerialPrintInt 1, SerialPrint '' / '', SerialPrintlnInt 1,
       AnalogWrite 11 255, Delay 500, AnalogWrite 11 0,
       ServoWrite 130, Delay 4294967045, ServoWrite 123, Delay 250,
       AnalogWrite 11 0, SerialPrintln ''Pulse sequence complete.'' ]"
proof (intro conjI)
  show "sint (PULSE_CYCLES (sketch_config\<lparr>PULSE_CYCLES := - 1\<rparr>)) = - 1"
    by simp
  have "for_loop (sketch_config\<lparr>PULSE_CYCLES := - 1\<rparr>) 0 = []"
    by (rule for_loop_none) simp
  then show "sketch (sketch_config\<lparr>PULSE_CYCLES := - 1\<rparr>) 1 =
     [ SerialBegin 9600, ServoAttach 6, ServoWrite 123, PinModeOutput 11,
       AnalogWrite 11 0, Delay 11000,
       SerialPrintln ''Dust injector initialized. Beginning pulse sequence...'',
       AnalogWrite 11 0, SerialPrintln ''Pulse sequence complete.'' ]"
    using sketch_events [of "sketch_config\<lparr>PULSE_CYCLES := - 1\<rparr>" 0]
    by (simp add: setup_fn_def sketch_config_def SERVO_PIN_def BUZZER_PIN_def)
  show "uint (VIBE_OFF_MS (initialise 123 130 255 500 (- 1) 1 250)) = 4294967295"
    using initialise_durations [of 123 130 255 500 "- 1" 1 250] by simp
  let ?cfg = "initialise 123 130 255 500 (- 1) 1 250"
  have "for_loop ?cfg 0 = pulse ?cfg 0"
    by (simp add: for_loop.simps [of _ 0] for_loop.simps [of _ 1] initialise_def
        word_sless_alt)
  then show "sketch ?cfg 1 =
     [ SerialBegin 9600, ServoAttach 6, ServoWrite 123, PinModeOutput 11,
       AnalogWrite 11 0, Delay 11000,
       SerialPrintln ''Dust injector initialized. Beginning pulse sequence...'',
       SerialPrint ''Pulse '', SerialPrintInt 1, SerialPrint '' / '', SerialPrintlnInt 1,
       AnalogWrite 11 255, Delay 500, AnalogWrite 11 0,
       ServoWrite 130, Delay 4294967045, ServoWrite 123, Delay 250,
       AnalogWrite 11 0, SerialPrintln ''Pulse sequence complete.'' ]"
    using sketch_events [of ?cfg 0]
    by (simp add: setup_fn_def pulse_def initialise_def SERVO_PIN_def BUZZER_PIN_def
        closedHold_def reopenWait_def)
qed

text \<open>
  C7, amended: no configuration is rejected and nothing is reported as an error. At
  every configuration the run of the program ends with the completion message, and the
  only strings it prints are the two status messages and the two labels of the progress
  line. A negative initialiser of a duration is accepted and stored modulo \<open>2 ^ 32\<close> in
  its unsigned constant. A negative \<open>PULSE_CYCLES\<close> is accepted: the \<^verbatim>\<open>for\<close> loop is
  skipped, so \<^verbatim>\<open>loop()\<close> issues only the terminal shutdown and the completion message,
  and \<^verbatim>\<open>loop()\<close> and the whole program behave exactly as with \<open>PULSE_CYCLES = 0\<close>.
\<close>

theorem no_configuration_rejected:
  "last (sketch cfg (Suc fuel)) = SerialPrintln ''Pulse sequence complete.'' \<and>
   (\<forall>s. SerialPrintln s \<in> set (sketch cfg fuel) \<longrightarrow>
      s = ''Dust injector initialized. Beginning pulse sequence...''
      \<or> s = ''Pulse sequence complete.'') \<and>
   (\<forall>s. SerialPrint s \<in> set (sketch cfg fuel) \<longrightarrow> s = ''Pulse '' \<or> s = '' / '') \<and>
   uint (VIBE_ON_MS (initialise od cd pwm on_ms off_ms n lead_ms)) = on_ms mod 2 ^ 32 \<and>
   uint (VIBE_OFF_MS (initialise od cd pwm on_ms off_ms n lead_ms)) = off_ms mod 2 ^ 32 \<and>
   uint (REOPEN_LEAD_MS (initialise od cd pwm on_ms off_ms n lead_ms)) = lead_ms mod 2 ^ 32 \<and>
   (sint (PULSE_CYCLES cfg) < 0 \<longrightarrow>
      fst (loop cfg fuel) =
        [AnalogWrite BUZZER_PIN 0, SerialPrintln ''Pulse sequence complete.''] \<and>
      loop cfg fuel = loop (cfg\<lparr>PULSE_CYCLES := 0\<rparr>) fuel \<and>
      sketch cfg fuel = sketch (cfg\<lparr>PULSE_CYCLES := 0\<rparr>) fuel)"
  using last_sketch [of cfg fuel] println_sketch [of _ cfg fuel] print_sketch [of _ cfg fuel]
    initialise_durations [of od cd pwm on_ms off_ms n lead_ms]
    negative_count_as_zero [of cfg fuel]
  by blast

theorem no_configuration_rejected_witness:
  "sint (PULSE_CYCLES (initialise 123 130 255 500 (- 1) (- 5) 250)) < 0 \<and>
   last (sketch (initialise 123 130 255 500 (- 1) (- 5) 250) 1) =
     SerialPrintln ''Pulse sequence complete.'' \<and>
   SerialPrintln ''Pulse sequence complete.''
     \<in> set (sketch (initialise 123 130 255 500 (- 1) (- 5) 250) 1) \<and>
   SerialPrint ''Pulse '' \<in> set (sketch (sketch_config\<lparr>PULSE_CYCLES := 1\<rparr>) 1) \<and>
   uint (VIBE_OFF_MS (initialise 123 130 255 500 (- 1) (- 5) 250)) = 4294967295 \<and>
   fst (loop (initialise 123 130 255 500 (- 1) (- 5) 250) 0) =
     [AnalogWrite 11 0, SerialPrintln ''Pulse sequence complete.''] \<and>
   sketch (initialise 123 130 255 500 (- 1) (- 5) 250) 1 =
     sketch (initialise 123 130 255 500 (- 1) 0 250) 1"
proof -
  let ?cfg = "initialise 123 130 255 500 (- 1) (- 5) 250"
  note thm0 = no_configuration_rejected [of ?cfg 0 123 130 255 500 "- 1" "- 5" 250]
  note thm1 = no_configuration_rejected [of ?cfg 1 123 130 255 500 "- 1" "- 5" 250]
  have neg: "sint (PULSE_CYCLES ?cfg) < 0"
    by (simp add: initialise_def)
  have zero: "?cfg\<lparr>PULSE_CYCLES := 0\<rparr> = initialise 123 130 255 500 (- 1) 0 250"
    by (simp add: initialise_def)
  from thm0 have l: "last (sketch ?cfg 1) = SerialPrintln ''Pulse sequence complete.''"
    by (simp only: One_nat_def)
  from thm0 neg have f: "fst (loop ?cfg 0) =
      [AnalogWrite BUZZER_PIN 0, SerialPrintln ''Pulse sequence complete.'']"
    by blast
  from thm1 neg have "sketch ?cfg 1 = sketch (?cfg\<lparr>PULSE_CYCLES := 0\<rparr>) 1"
    by blast
  then have e: "sketch ?cfg 1 = sketch (initialise 123 130 255 500 (- 1) 0 250) 1"
    by (simp only: zero)
  from thm0 have "uint (VIBE_OFF_MS ?cfg) = (- 1) mod 2 ^ 32"
    by blast
  then have d: "uint (VIBE_OFF_MS ?cfg) = 4294967295"
    by simp
  have m: "SerialPrintln ''Pulse sequence complete.'' \<in> set (sketch ?cfg 1)"
    using sketch_events [of ?cfg 0] by simp
  have "for_loop (sketch_config\<lparr>PULSE_CYCLES := 1\<rparr>) 0 =
      pulse (sketch_config\<lparr>PULSE_CYCLES := 1\<rparr>) 0"
    by (simp add: for_loop.simps [of _ 0] for_loop.simps [of _ 1] sketch_config_def
        word_sless_alt)
  then have q: "SerialPrint ''Pulse '' \<in> set (sketch (sketch_config\<lparr>PULSE_CYCLES := 1\<rparr>) 1)"
    using sketch_events [of "sketch_config\<lparr>PULSE_CYCLES := 1\<rparr>" 0]
    by (simp add: pulse_def)
  from neg l m q d f e show ?thesis
    by (simp add: BUZZER_PIN_def)
qed

subsection \<open>The gate at the start and at the end\<close>

text \<open>
  C8. \<^verbatim>\<open>setup()\<close> commands the gate to the open angle and the vibration to 0, and
  nothing else; whatever the actuators' state before, after it the gate's last command
  is the open angle and the buzzer's last intensity is 0. Its events are the first of
  the program, ahead of every pulse.
\<close>

theorem setup_opens_gate_vibration_off:
  "commands (setup_fn cfg) =
     [ServoWrite (sint (SERVO_OPEN_DEG cfg)), AnalogWrite BUZZER_PIN 0] \<and>
   gate_after g (setup_fn cfg) = Some (sint (SERVO_OPEN_DEG cfg)) \<and>
   vibration_after v (setup_fn cfg) = Some 0 \<and>
   take (length (setup_fn cfg)) (sketch cfg fuel) = setup_fn cfg \<and>
   sketch cfg (Suc fuel) = setup_fn cfg @ fst (loop cfg fuel)"
proof (intro conjI)
  show "commands (setup_fn cfg) =
      [ServoWrite (sint (SERVO_OPEN_DEG cfg)), AnalogWrite BUZZER_PIN 0]"
    by (rule commands_setup)
  show "gate_after g (setup_fn cfg) = Some (sint (SERVO_OPEN_DEG cfg))"
    by (rule gate_after_setup)
  show "vibration_after v (setup_fn cfg) = Some 0"
    by (rule vibration_after_setup)
  show "take (length (setup_fn cfg)) (sketch cfg fuel) = setup_fn cfg"
    by (simp add: sketch_def)
  show "sketch cfg (Suc fuel) = setup_fn cfg @ fst (loop cfg fuel)"
    by (simp only: sketch_def run_loop_once)
qed

text \<open>
  C9. Every pulse leaves the gate commanded open, the events of \<^verbatim>\<open>loop()\<close> after the
  pulses do not command the gate, and so at every moment the program is observed
  between pulses or after them, whatever the pulse count, the gate's last command is
  the open angle.
\<close>

theorem gate_left_open:
  "gate_after g (pulse cfg c) = Some (sint (SERVO_OPEN_DEG cfg)) \<and>
   gate_after g (fst (loop cfg fuel)) = gate_after g (for_loop cfg 0) \<and>
   gate_after g (sketch cfg fuel) = Some (sint (SERVO_OPEN_DEG cfg))"
proof (intro conjI)
  show "gate_after g (pulse cfg c) = Some (sint (SERVO_OPEN_DEG cfg))"
    by (rule gate_after_pulse)
  show l: "gate_after g (fst (loop cfg fuel)) = gate_after g (for_loop cfg 0)" for g fuel
    by (simp add: loop_events gate_after_append)
  show "gate_after g (sketch cfg fuel) = Some (sint (SERVO_OPEN_DEG cfg))"
  proof (cases fuel)
    case 0
    then show ?thesis by (simp add: sketch_def gate_after_setup)
  next
    case (Suc k)
    then show ?thesis
      by (simp only: sketch_def run_loop_once gate_after_append gate_after_setup l
          gate_after_for_loop if_cancel)
  qed
qed

end
